theory Spec2Isabelle
  imports Main "HOL-Library.AList"
begin

section \<open>Data model of the graph execution engine\<close>

text \<open>
  The development follows \<^verbatim>\<open>backend/executor/manager.py\<close>. Block inputs and
  outputs are JSON-like Python values; a Python \<^verbatim>\<open>dict\<close> is an association list
  in insertion order, read with \<open>map_of\<close> and written with \<open>AList.update\<close>
  (overwrite in place, or append a new key).
\<close>

datatype ExecutionStatus = INCOMPLETE | QUEUED | RUNNING | COMPLETED | FAILED | TERMINATED

datatype BlockType = STANDARD | INPUT | OUTPUT | NOTE | WEBHOOK | WEBHOOK_MANUAL | AGENT

datatype val = VNone | VBool bool | VInt int | VStr string | VList "val list"
  | VDict "(string \<times> val) list"

text \<open>The runtime type of a value, and the annotation of a schema field; an annotation
  that is no plain runtime type (a generic, a model class) is \<open>TOther\<close>.\<close>

datatype pytype = TNoneType | TBool | TInt | TStr | TList | TDict | TOther string

fun type_of :: "val \<Rightarrow> pytype" where
  "type_of VNone = TNoneType"
| "type_of (VBool b) = TBool"
| "type_of (VInt i) = TInt"
| "type_of (VStr s) = TStr"
| "type_of (VList xs) = TList"
| "type_of (VDict kvs) = TDict"

text \<open>Python truthiness: what \<^verbatim>\<open>if value\<close> tests.\<close>

fun truthy :: "val \<Rightarrow> bool" where
  "truthy VNone = False"
| "truthy (VBool b) = b"
| "truthy (VInt i) = (i \<noteq> 0)"
| "truthy (VStr s) = (s \<noteq> [])"
| "truthy (VList xs) = (xs \<noteq> [])"
| "truthy (VDict kvs) = (kvs \<noteq> [])"

type_synonym BlockInput = "(string \<times> val) list"

text \<open>\<^verbatim>\<open>{**a, **b}\<close>: the keys of \<open>a\<close> in order, overwritten by \<open>b\<close>, then the new
  keys of \<open>b\<close>.\<close>

definition dict_merge :: "BlockInput \<Rightarrow> BlockInput \<Rightarrow> BlockInput" where
  "dict_merge a b = fold (\<lambda>(k, v) d. AList.update k v d) b a"

record Link =
  source_id :: string
  source_name :: string
  sink_id :: string
  sink_name :: string
  is_static :: bool

record CredentialsMeta =
  cm_id :: string
  cm_provider :: string
  cm_type :: string

text \<open>
  The block catalogue is not part of the executor: a schema is the functions the
  executor calls on it. \<open>get_missing_links\<close> and \<open>get_missing_input\<close> return sets of
  names (tested for emptiness only), \<open>get_mismatch_error\<close> an optional message, and
  \<open>get_credentials_fields\<close> maps a field name to the constructor of its credentials
  metadata, which fails (\<open>None\<close>) on an ill-formed value.
\<close>

record BlockSchema =
  annotations :: "(string \<times> pytype) list"
  get_missing_links :: "BlockInput \<Rightarrow> Link list \<Rightarrow> string list"
  get_input_defaults :: "BlockInput \<Rightarrow> BlockInput"
  get_missing_input :: "BlockInput \<Rightarrow> string list"
  get_mismatch_error :: "BlockInput \<Rightarrow> string option"
  get_credentials_fields :: "(string \<times> (val \<Rightarrow> CredentialsMeta option)) list"

text \<open>An extra keyword argument handed to a block: an identifier of the run, or the
  credentials acquired for a field (named by user and credentials id).\<close>

datatype kwarg = KStr string | KExec nat | KCredentials string string

text \<open>\<open>execute\<close> is the block's lazy output sequence, run to its end: the outputs
  produced in order, and the message of the exception that ended it, if one did.\<close>

record Block =
  b_id :: string
  b_name :: string
  block_type :: BlockType
  is_agent_executor :: bool
  input_schema :: BlockSchema
  execute :: "BlockInput \<Rightarrow> (string \<times> kwarg) list \<Rightarrow> (string \<times> val) list \<times> string option"

record Node =
  n_id :: string
  block_id :: string
  block :: Block
  input_default :: BlockInput
  input_links :: "Link list"
  output_links :: "Link list"
  webhook_id :: "string option"

text \<open>The collaborators that are pure functions: the block registry, the graph's
  nodes, the value conversion, the dynamic-pin merge, the output projection and the
  cost tables.\<close>

record env =
  get_block :: "string \<Rightarrow> Block option"
  get_node :: "string \<Rightarrow> Node"
  convert :: "val \<Rightarrow> pytype \<Rightarrow> val"
  merge_execution_input :: "BlockInput \<Rightarrow> BlockInput"
  parse_execution_output :: "string \<times> val \<Rightarrow> string \<Rightarrow> val option"
  block_usage_cost :: "Block \<Rightarrow> BlockInput \<Rightarrow> int \<times> BlockInput"
  execution_usage_cost :: "int \<Rightarrow> int \<times> int"
  base_url :: string

section \<open>Input validation\<close>

text \<open>
  The loop at the head of \<^verbatim>\<open>validate_exec\<close>:
  \<^verbatim>\<open>for name, data_type in schema.__annotations__.items():
    if (value := data.get(name)) and (type(value) is not data_type):
        data[name] = convert(value, data_type)\<close>
  A missing key reads as \<^verbatim>\<open>None\<close>, which is falsy.
\<close>

fun convert_inputs :: "(val \<Rightarrow> pytype \<Rightarrow> val) \<Rightarrow> (string \<times> pytype) list \<Rightarrow> BlockInput \<Rightarrow> BlockInput" where
  "convert_inputs conv [] data = data"
| "convert_inputs conv ((name, data_type) # rest) data =
     convert_inputs conv rest
       (case map_of data name of
          None \<Rightarrow> data
        | Some v \<Rightarrow>
            if truthy v \<and> type_of v \<noteq> data_type
            then AList.update name (conv v data_type) data
            else data)"

text \<open>The rendering of a set of names inside an f-string, as Python prints a set of
  strings: \<^verbatim>\<open>{'a', 'b'}\<close> (in the order of the list; the sets rendered are never
  empty).\<close>

fun join_names :: "string list \<Rightarrow> string" where
  "join_names [] = []"
| "join_names [n] = [CHR 0x27] @ n @ [CHR 0x27]"
| "join_names (n # ns) = [CHR 0x27] @ n @ [CHR 0x27] @ '', '' @ join_names ns"

definition str_names :: "string list \<Rightarrow> string" where
  "str_names names = ''{'' @ join_names names @ ''}''"

definition error_prefix :: "Block \<Rightarrow> string" where
  "error_prefix node_block = ''Input data missing or mismatch for `'' @ b_name node_block @ ''`:''"

text \<open>
  \<^verbatim>\<open>validate_exec(node, data, resolve_input)\<close> returns the validated input and the
  block name, or \<^verbatim>\<open>None\<close> and an error message. An empty mismatch message is falsy
  and passes, as in the source.
\<close>

text \<open>The checks of \<^verbatim>\<open>validate_exec\<close> that follow the conversion loop, on the
  converted input \<open>data1\<close>.\<close>

definition check_input :: "env \<Rightarrow> Node \<Rightarrow> Block \<Rightarrow> BlockInput \<Rightarrow> bool \<Rightarrow> BlockInput option \<times> string" where
  "check_input E node node_block data1 resolve_input =
     (let schema = input_schema node_block;
          missing_links = get_missing_links schema data1 (input_links node)
      in if missing_links \<noteq> []
         then (None, error_prefix node_block @ '' unpopulated links '' @ str_names missing_links)
         else
           let defaults = get_input_defaults schema (input_default node);
               data2 = dict_merge defaults data1;
               data3 = (if resolve_input then merge_execution_input E data2 else data2);
               missing_input = get_missing_input schema data3
           in if missing_input \<noteq> []
              then (None, error_prefix node_block @ '' missing input '' @ str_names missing_input)
              else
                (case get_mismatch_error schema data3 of
                   None \<Rightarrow> (Some data3, b_name node_block)
                 | Some err \<Rightarrow>
                     if err \<noteq> [] then (None, error_prefix node_block @ '' '' @ err)
                     else (Some data3, b_name node_block)))"

definition validate_exec :: "env \<Rightarrow> Node \<Rightarrow> BlockInput \<Rightarrow> bool \<Rightarrow> BlockInput option \<times> string" where
  "validate_exec E node data resolve_input =
     (case get_block E (block_id node) of
        None \<Rightarrow> (None, ''Block for '' @ block_id node @ '' not found.'')
      | Some node_block \<Rightarrow>
          check_input E node node_block
            (convert_inputs (convert E) (annotations (input_schema node_block)) data)
            resolve_input)"

section \<open>The store and the other stateful collaborators\<close>

text \<open>
  A node execution is named by its position in the store's list of node executions
  (creation order), a graph execution by its position in the list of graph executions.
  The output rows of a node execution are kept in production order.
\<close>

record NodeExecutionResult =
  r_graph_exec_id :: nat
  r_node_id :: string
  r_block_id :: string
  r_status :: ExecutionStatus
  r_input_data :: BlockInput
  r_output_data :: "(string \<times> val) list"

text \<open>The statistics of a graph run; the wall and cpu times are left out.\<close>

record GraphExecutionStats =
  cost :: int
  node_count :: nat
  node_error_count :: nat
  stats_error :: "string option"

record GraphExecution =
  ge_graph_id :: string
  ge_user_id :: string
  ge_status :: ExecutionStatus
  ge_stats :: "GraphExecutionStats option"

datatype update_event = NodeUpdate nat ExecutionStatus | GraphUpdate nat ExecutionStatus

record LowBalanceData =
  current_balance :: int
  billing_page_link :: string
  shortfall :: int
  lb_agent_name :: string

record AgentRunData =
  ar_agent_name :: string
  credits_used :: int
  ar_graph_id :: string
  ar_node_count :: nat

datatype notification = LOW_BALANCE string LowBalanceData | AGENT_RUN string AgentRunData

text \<open>
  The state outside the executor: the database (node and graph executions, the credit
  ledger, the names of the graphs), the events broadcast to observers, the credential
  locks held (user id, credentials id), the notifications queued, and a log of the node
  executions whose block was invoked.
\<close>

record world =
  node_execs :: "NodeExecutionResult list"
  graph_execs :: "GraphExecution list"
  sent :: "update_event list"
  locks :: "(string \<times> string) list"
  notifications :: "notification list"
  ledger :: "(string \<times> int) list"
  graph_names :: "(string \<times> string) list"
  invoked :: "nat list"

subsection \<open>Database operations\<close>

text \<open>
  Modelled from the spec: the store enforces the monotonic status order
  INCOMPLETE, then QUEUED, then RUNNING, then one of the terminal statuses COMPLETED,
  FAILED and TERMINATED. An update may keep a status or advance it; an update that
  would move a status backwards, or from one terminal status to another, is refused.
\<close>

fun rank :: "ExecutionStatus \<Rightarrow> nat" where
  "rank INCOMPLETE = 0"
| "rank QUEUED = 1"
| "rank RUNNING = 2"
| "rank COMPLETED = 3"
| "rank FAILED = 3"
| "rank TERMINATED = 3"

definition advances :: "ExecutionStatus \<Rightarrow> ExecutionStatus \<Rightarrow> bool" where
  "advances old new = (old = new \<or> rank old < rank new)"

text \<open>
  Modelled from the spec: the operations of \<^verbatim>\<open>DatabaseManager\<close>, which the executor
  only calls. Each does what its name and the spec's description of the call say,
  within the status order. \<^verbatim>\<open>update_node_execution_status\<close> returns the latest
  state of the execution, whether the update was accepted or refused, and nothing for
  an execution that does not exist.
\<close>

definition update_node_execution_status :: "world \<Rightarrow> nat \<Rightarrow> ExecutionStatus \<Rightarrow> BlockInput option \<Rightarrow> NodeExecutionResult option \<times> world" where
  "update_node_execution_status w i st data =
     (if i < length (node_execs w)
      then if advances (r_status (node_execs w ! i)) st
           then let r = (case data of
                           None \<Rightarrow> (node_execs w ! i)\<lparr>r_status := st\<rparr>
                         | Some d \<Rightarrow> (node_execs w ! i)\<lparr>r_status := st, r_input_data := d\<rparr>)
                in (Some r, w\<lparr>node_execs := (node_execs w)[i := r]\<rparr>)
           else (Some (node_execs w ! i), w)
      else (None, w))"

definition send_execution_update :: "world \<Rightarrow> update_event \<Rightarrow> world" where
  "send_execution_update w ev = w\<lparr>sent := sent w @ [ev]\<rparr>"

text \<open>The pair of calls \<^verbatim>\<open>exec_update = update_node_execution_status(...)\<close>,
  \<^verbatim>\<open>send_execution_update(exec_update)\<close>: the event carries the status the store
  holds after the update.\<close>

definition update_and_send :: "world \<Rightarrow> nat \<Rightarrow> ExecutionStatus \<Rightarrow> BlockInput option \<Rightarrow> world" where
  "update_and_send w i st data =
     (case update_node_execution_status w i st data of
        (None, w') \<Rightarrow> w'
      | (Some exec_update, w') \<Rightarrow> send_execution_update w' (NodeUpdate i (r_status exec_update)))"

definition upsert_execution_output :: "world \<Rightarrow> nat \<Rightarrow> string \<Rightarrow> val \<Rightarrow> world" where
  "upsert_execution_output w i output_name output_data =
     (if i < length (node_execs w)
      then w\<lparr>node_execs := (node_execs w)
             [i := (node_execs w ! i)\<lparr>r_output_data :=
                      r_output_data (node_execs w ! i) @ [(output_name, output_data)]\<rparr>]\<rparr>
      else w)"



text \<open>\<^verbatim>\<open>update_graph_execution_stats\<close> returns the updated graph execution, or
  \<^verbatim>\<open>None\<close> when there is none of that id or the store refuses the status.\<close>

definition update_graph_execution_stats :: "world \<Rightarrow> nat \<Rightarrow> ExecutionStatus \<Rightarrow> GraphExecutionStats option \<Rightarrow> GraphExecution option \<times> world" where
  "update_graph_execution_stats w g st stats =
     (if g < length (graph_execs w) \<and> advances (ge_status (graph_execs w ! g)) st
      then let ge = (graph_execs w ! g)\<lparr>ge_status := st, ge_stats := stats\<rparr>
           in (Some ge, w\<lparr>graph_execs := (graph_execs w)[g := ge]\<rparr>)
      else (None, w))"

section \<open>The execution manager: cancellation\<close>



section \<open>The data-flow resolver\<close>

text \<open>The exceptions the executor raises or handles: a dictionary subscript on a missing
  key, an ill-formed credentials value, a failure raised by a block (with its message),
  the credit ledger's refusal (message, balance, amount), and \<^verbatim>\<open>ValueError\<close>.\<close>

datatype exn = KeyError string | TypeError string | BlockError string
  | InsufficientBalanceError string int int | ValueError string

fun str_exn :: "exn \<Rightarrow> string" where
  "str_exn (KeyError k) = [CHR 0x27] @ k @ [CHR 0x27]"
| "str_exn (TypeError m) = m"
| "str_exn (BlockError m) = m"
| "str_exn (InsufficientBalanceError m b a) = m"
| "str_exn (ValueError m) = m"

record NodeExecutionEntry =
  e_user_id :: string
  e_graph_exec_id :: nat
  e_graph_id :: string
  e_node_exec_id :: nat
  e_node_id :: string
  e_block_id :: string
  e_data :: BlockInput

text \<open>
  Modelled from the spec: \<^verbatim>\<open>upsert_execution_input\<close> attaches the value to the
  earliest node execution of the sink that is INCOMPLETE and misses the pin, or creates
  a new INCOMPLETE one with just this input; it returns the execution's id and its
  accumulated input. \<^verbatim>\<open>get_latest_node_execution\<close> is the most recent completed
  execution of the node in the run, \<^verbatim>\<open>get_incomplete_node_executions\<close> the node's
  INCOMPLETE ones.
\<close>

definition upsert_execution_input :: "env \<Rightarrow> world \<Rightarrow> string \<Rightarrow> nat \<Rightarrow> string \<Rightarrow> val \<Rightarrow> nat \<times> BlockInput \<times> world" where
  "upsert_execution_input E w node_id graph_exec_id input_name input_data =
     (case find (\<lambda>(i, r). r_node_id r = node_id \<and> r_graph_exec_id r = graph_exec_id
                    \<and> r_status r = INCOMPLETE \<and> map_of (r_input_data r) input_name = None)
                (enumerate 0 (node_execs w)) of
        Some (i, r) \<Rightarrow>
          let d = r_input_data r @ [(input_name, input_data)]
          in (i, d, w\<lparr>node_execs := (node_execs w)[i := r\<lparr>r_input_data := d\<rparr>]\<rparr>)
      | None \<Rightarrow>
          let d = [(input_name, input_data)];
              r = \<lparr>r_graph_exec_id = graph_exec_id, r_node_id = node_id,
                   r_block_id = block_id (get_node E node_id), r_status = INCOMPLETE,
                   r_input_data = d, r_output_data = []\<rparr>
          in (length (node_execs w), d, w\<lparr>node_execs := node_execs w @ [r]\<rparr>))"

definition get_latest_node_execution :: "world \<Rightarrow> string \<Rightarrow> nat \<Rightarrow> NodeExecutionResult option" where
  "get_latest_node_execution w node_id graph_exec_id =
     (case rev (filter (\<lambda>r. r_node_id r = node_id \<and> r_graph_exec_id r = graph_exec_id
                           \<and> r_status r = COMPLETED) (node_execs w)) of
        [] \<Rightarrow> None
      | r # rs \<Rightarrow> Some r)"

definition get_incomplete_node_executions :: "world \<Rightarrow> string \<Rightarrow> nat \<Rightarrow> (nat \<times> NodeExecutionResult) list" where
  "get_incomplete_node_executions w node_id graph_exec_id =
     filter (\<lambda>(i, r). r_node_id r = node_id \<and> r_graph_exec_id r = graph_exec_id \<and> r_status r = INCOMPLETE)
       (enumerate 0 (node_execs w))"

text \<open>\<^verbatim>\<open>add_enqueued_execution\<close>: set the execution QUEUED with its input, broadcast,
  and build the entry for the ready-queue.\<close>

definition add_enqueued_execution :: "string \<Rightarrow> nat \<Rightarrow> string \<Rightarrow> nat \<Rightarrow> string \<Rightarrow> string \<Rightarrow> BlockInput \<Rightarrow> world \<Rightarrow> NodeExecutionEntry \<times> world" where
  "add_enqueued_execution user_id graph_exec_id graph_id node_exec_id node_id blk_id data w =
     (\<lparr>e_user_id = user_id, e_graph_exec_id = graph_exec_id, e_graph_id = graph_id,
       e_node_exec_id = node_exec_id, e_node_id = node_id, e_block_id = blk_id, e_data = data\<rparr>,
      update_and_send w node_exec_id QUEUED (Some data))"

text \<open>The names of the static input links of a node whose pin has no value in \<open>d\<close>
  (a set in the source).\<close>

definition missing_static_names :: "Node \<Rightarrow> BlockInput \<Rightarrow> string list" where
  "missing_static_names next_node d =
     remdups (map sink_name (filter (\<lambda>l. is_static l \<and> map_of d (sink_name l) = None) (input_links next_node)))"

text \<open>\<^verbatim>\<open>next_node_input[name] = latest_execution.input_data.get(name)\<close> for each name:
  a pin the latest execution did not have reads as \<^verbatim>\<open>None\<close>.\<close>

definition fill_from_latest :: "string list \<Rightarrow> NodeExecutionResult \<Rightarrow> BlockInput \<Rightarrow> BlockInput" where
  "fill_from_latest names latest d =
     fold (\<lambda>name d'. AList.update name (case map_of (r_input_data latest) name of None \<Rightarrow> VNone | Some v \<Rightarrow> v) d')
       names d"

text \<open>"Complete missing static input pins data using the last execution input": the
  input handed to validation after the upsert.\<close>

definition static_cache_input :: "world \<Rightarrow> Node \<Rightarrow> string \<Rightarrow> nat \<Rightarrow> BlockInput \<Rightarrow> BlockInput" where
  "static_cache_input w1 next_node next_node_id graph_exec_id next_node_input =
     (let static_link_names = missing_static_names next_node next_node_input
      in if static_link_names \<noteq> []
         then (case get_latest_node_execution w1 next_node_id graph_exec_id of
                 None \<Rightarrow> next_node_input
               | Some latest_execution \<Rightarrow> fill_from_latest static_link_names latest_execution next_node_input)
         else next_node_input)"

text \<open>\<^verbatim>\<open>idata[input_name] = next_node_input[input_name]\<close> for each name: the subscript
  raises \<^verbatim>\<open>KeyError\<close> on a name the validated input does not have.\<close>

fun fill_static :: "string list \<Rightarrow> BlockInput \<Rightarrow> BlockInput \<Rightarrow> exn + BlockInput" where
  "fill_static [] next_node_input idata = Inr idata"
| "fill_static (n # ns) next_node_input idata =
     (case map_of next_node_input n of
        None \<Rightarrow> Inl (KeyError n)
      | Some v \<Rightarrow> fill_static ns next_node_input (AList.update n v idata))"

text \<open>
  The loop over the incomplete executions of the sink, run when the satisfied link is
  static. An execution whose completed input does not validate is skipped; the
  result carries the store also when the loop raises.
\<close>

fun static_scan :: "env \<Rightarrow> string \<Rightarrow> nat \<Rightarrow> string \<Rightarrow> string \<Rightarrow> Node \<Rightarrow> BlockInput \<Rightarrow> (nat \<times> NodeExecutionResult) list \<Rightarrow> NodeExecutionEntry list \<Rightarrow> world \<Rightarrow> (exn + NodeExecutionEntry list) \<times> world" where
  "static_scan E user_id graph_exec_id graph_id next_node_id next_node next_node_input [] enqueued w = (Inr enqueued, w)"
| "static_scan E user_id graph_exec_id graph_id next_node_id next_node next_node_input ((ineid, iexec) # rest) enqueued w =
     (case fill_static (missing_static_names next_node (r_input_data iexec)) next_node_input (r_input_data iexec) of
        Inl e \<Rightarrow> (Inl e, w)
      | Inr idata1 \<Rightarrow>
          (case fst (validate_exec E next_node idata1 True) of
             None \<Rightarrow> static_scan E user_id graph_exec_id graph_id next_node_id next_node next_node_input rest enqueued w
           | Some idata \<Rightarrow>
               if idata = []
               then static_scan E user_id graph_exec_id graph_id next_node_id next_node next_node_input rest enqueued w
               else
                 let (entry, w') = add_enqueued_execution user_id graph_exec_id graph_id ineid
                                     next_node_id (block_id next_node) idata w
                 in static_scan E user_id graph_exec_id graph_id next_node_id next_node next_node_input rest
                      (enqueued @ [entry]) w'))"

text \<open>
  \<^verbatim>\<open>register_next_executions(node_link)\<close> inside \<^verbatim>\<open>_enqueue_next_nodes\<close>. The
  distributed lock \<^verbatim>\<open>synchronized(...)\<close> around the body has no effect on a single
  resolver and is left out.
\<close>

definition register_next_executions :: "env \<Rightarrow> string \<Rightarrow> nat \<Rightarrow> string \<Rightarrow> string \<times> val \<Rightarrow> Link \<Rightarrow> world \<Rightarrow> (exn + NodeExecutionEntry list) \<times> world" where
  "register_next_executions E user_id graph_exec_id graph_id output node_link w =
     (case parse_execution_output E output (source_name node_link) of
        None \<Rightarrow> (Inr [], w)
      | Some next_data \<Rightarrow>
          (let next_node = get_node E (sink_id node_link);
              (next_node_exec_id, input0, w1) =
                 upsert_execution_input E w (sink_id node_link) graph_exec_id (sink_name node_link) next_data
          in case fst (validate_exec E next_node
                         (static_cache_input w1 next_node (sink_id node_link) graph_exec_id input0) True) of
               None \<Rightarrow> (Inr [], w1)
             | Some next_node_input \<Rightarrow>
                 if next_node_input = [] then (Inr [], w1)
                 else
                   let (entry, w2) = add_enqueued_execution user_id graph_exec_id graph_id next_node_exec_id
                                       (sink_id node_link) (block_id next_node) next_node_input w1
                   in if \<not> is_static node_link then (Inr [entry], w2)
                      else static_scan E user_id graph_exec_id graph_id (sink_id node_link) next_node next_node_input
                             (get_incomplete_node_executions w2 (sink_id node_link) graph_exec_id)
                             [entry] w2))"

text \<open>\<^verbatim>\<open>_enqueue_next_nodes\<close>: the executions of all output links, in order. The list
  is built whole, so a link that raises loses the entries of the links before it (their
  effect on the store stays).\<close>

fun enqueue_links :: "env \<Rightarrow> string \<Rightarrow> nat \<Rightarrow> string \<Rightarrow> string \<times> val \<Rightarrow> Link list \<Rightarrow> NodeExecutionEntry list \<Rightarrow> world \<Rightarrow> (exn + NodeExecutionEntry list) \<times> world" where
  "enqueue_links E user_id graph_exec_id graph_id output [] acc w = (Inr acc, w)"
| "enqueue_links E user_id graph_exec_id graph_id output (l # ls) acc w =
     (case register_next_executions E user_id graph_exec_id graph_id output l w of
        (Inl e, w') \<Rightarrow> (Inl e, w')
      | (Inr es, w') \<Rightarrow> enqueue_links E user_id graph_exec_id graph_id output ls (acc @ es) w')"

definition enqueue_next_nodes :: "env \<Rightarrow> Node \<Rightarrow> string \<times> val \<Rightarrow> string \<Rightarrow> nat \<Rightarrow> string \<Rightarrow> world \<Rightarrow> (exn + NodeExecutionEntry list) \<times> world" where
  "enqueue_next_nodes E node output user_id graph_exec_id graph_id w =
     enqueue_links E user_id graph_exec_id graph_id output (output_links node) [] w"

section \<open>The node executor\<close>

datatype outcome = Returned | Raised exn

text \<open>The two closures of \<^verbatim>\<open>execute_node\<close>: \<^verbatim>\<open>push_output\<close>, and
  \<^verbatim>\<open>update_execution_status\<close>, which sets the status and broadcasts the update.\<close>

definition push_output :: "world \<Rightarrow> nat \<Rightarrow> string \<Rightarrow> val \<Rightarrow> world" where
  "push_output w node_exec_id output_name output_data =
     upsert_execution_output w node_exec_id output_name output_data"

definition update_execution_status :: "world \<Rightarrow> nat \<Rightarrow> ExecutionStatus \<Rightarrow> world" where
  "update_execution_status w node_exec_id st = update_and_send w node_exec_id st None"

text \<open>
  Modelled from the spec: \<^verbatim>\<open>creds_manager.acquire(user_id, credentials_id)\<close> takes the
  system-wide lock on \<open>(user_id, credentials_id)\<close> and returns the credentials with the
  lock; a lock is \<^verbatim>\<open>locked()\<close> while it is among the locks held, and
  \<^verbatim>\<open>release()\<close> gives it back.
\<close>

definition acquire :: "world \<Rightarrow> string \<Rightarrow> string \<Rightarrow> kwarg \<times> (string \<times> string) \<times> world" where
  "acquire w user_id credentials_id =
     (KCredentials user_id credentials_id, (user_id, credentials_id),
      w\<lparr>locks := locks w @ [(user_id, credentials_id)]\<rparr>)"

definition locked :: "world \<Rightarrow> string \<times> string \<Rightarrow> bool" where
  "locked w lock = (lock \<in> set (locks w))"

definition release :: "world \<Rightarrow> string \<times> string \<Rightarrow> world" where
  "release w lock = w\<lparr>locks := remove1 lock (locks w)\<rparr>"

text \<open>
  The loop over the credentials fields of the schema:
  \<^verbatim>\<open>for field_name, input_type in input_model.get_credentials_fields().items():
    credentials_meta = input_type(**input_data[field_name])
    credentials, creds_lock = creds_manager.acquire(user_id, credentials_meta.id)
    extra_exec_kwargs[field_name] = credentials\<close>
  The one variable \<^verbatim>\<open>creds_lock\<close> is assigned in every round. The subscript raises
  on a missing field and the constructor on an ill-formed value; the loop stands before
  the \<^verbatim>\<open>try\<close>, so either leaves \<^verbatim>\<open>execute_node\<close> at once.
\<close>

fun acquire_credentials :: "string \<Rightarrow> (string \<times> (val \<Rightarrow> CredentialsMeta option)) list \<Rightarrow> BlockInput \<Rightarrow> (string \<times> string) option \<Rightarrow> (string \<times> kwarg) list \<Rightarrow> world \<Rightarrow> (exn + (string \<times> string) option \<times> (string \<times> kwarg) list) \<times> world" where
  "acquire_credentials user_id [] input_data creds_lock extra_exec_kwargs w =
     (Inr (creds_lock, extra_exec_kwargs), w)"
| "acquire_credentials user_id ((field_name, input_type) # rest) input_data creds_lock extra_exec_kwargs w =
     (case map_of input_data field_name of
        None \<Rightarrow> (Inl (KeyError field_name), w)
      | Some v \<Rightarrow>
          (case input_type v of
             None \<Rightarrow> (Inl (TypeError field_name), w)
           | Some credentials_meta \<Rightarrow>
               let (credentials, lock, w1) = acquire w user_id (cm_id credentials_meta)
               in acquire_credentials user_id rest input_data (Some lock)
                    (AList.update field_name credentials extra_exec_kwargs) w1))"

text \<open>The head of the \<^verbatim>\<open>finally\<close> block:
  \<^verbatim>\<open>if creds_lock and creds_lock.locked(): creds_lock.release()\<close>.\<close>

definition release_credentials :: "(string \<times> string) option \<Rightarrow> world \<Rightarrow> world" where
  "release_credentials creds_lock w =
     (case creds_lock of
        None \<Rightarrow> w
      | Some lock \<Rightarrow> if locked w lock then release w lock else w)"

text \<open>
  The body of the loop over the block's outputs: persist the output, run the resolver,
  yield its entries. The entries yielded before an exception stay yielded.
\<close>

fun process_outputs :: "env \<Rightarrow> Node \<Rightarrow> NodeExecutionEntry \<Rightarrow> (string \<times> val) list \<Rightarrow> NodeExecutionEntry list \<Rightarrow> world \<Rightarrow> exn option \<times> NodeExecutionEntry list \<times> world" where
  "process_outputs E node data [] yielded w = (None, yielded, w)"
| "process_outputs E node data ((output_name, output_data) # rest) yielded w =
     (case enqueue_next_nodes E node (output_name, output_data)
             (e_user_id data) (e_graph_exec_id data) (e_graph_id data)
             (push_output w (e_node_exec_id data) output_name output_data) of
        (Inl e, w') \<Rightarrow> (Some e, yielded, w')
      | (Inr es, w') \<Rightarrow> process_outputs E node data rest (yielded @ es) w')"

text \<open>"Re-shape the input data for agent block": an \<^verbatim>\<open>AgentExecutorBlock\<close> gets
  \<^verbatim>\<open>{**node.input_default, "data": input_data}\<close>.\<close>

definition shape_input :: "Node \<Rightarrow> BlockInput \<Rightarrow> BlockInput" where
  "shape_input node validated =
     (if is_agent_executor (block node)
      then dict_merge (input_default node) [(''data'', VDict validated)]
      else validated)"

text \<open>The identifiers injected into the block's keyword arguments.\<close>

definition ambient_kwargs :: "NodeExecutionEntry \<Rightarrow> (string \<times> kwarg) list" where
  "ambient_kwargs data =
     [(''graph_id'', KStr (e_graph_id data)), (''node_id'', KStr (e_node_id data)),
      (''graph_exec_id'', KExec (e_graph_exec_id data)), (''node_exec_id'', KExec (e_node_exec_id data)),
      (''user_id'', KStr (e_user_id data))]"

text \<open>
  \<^verbatim>\<open>execute_node\<close>, run to the end of its generator: the entries it yielded, how it
  ended, and the state it left. The serialisation of values to JSON is the identity on
  \<open>val\<close>; the statistics, which the \<^verbatim>\<open>finally\<close> block rebinds locally, are left
  out. The block is invoked (and logged in \<open>invoked\<close>) when its output sequence is
  first asked for. An exception of the resolver inside the loop is caught by the same
  handler as an exception of the block; an exception raised inside the handler
  replaces the one being handled.
\<close>

definition execute_node :: "env \<Rightarrow> NodeExecutionEntry \<Rightarrow> world \<Rightarrow> NodeExecutionEntry list \<times> outcome \<times> world" where
  "execute_node E data w =
     (let node_exec_id = e_node_exec_id data;
          node = get_node E (e_node_id data);
          node_block = block node
      in case validate_exec E node (e_data data) False of
           (None, error) \<Rightarrow>
             ([], Returned,
              update_execution_status (push_output w node_exec_id ''error'' (VStr error)) node_exec_id FAILED)
         | (Some validated, name) \<Rightarrow>
             (let input_data = shape_input node validated;
                  w1 = update_execution_status w node_exec_id RUNNING
              in case acquire_credentials (e_user_id data) (get_credentials_fields (input_schema node_block))
                        input_data None (ambient_kwargs data) w1 of
                   (Inl e, w2) \<Rightarrow> ([], Raised e, w2)
                 | (Inr (creds_lock, kwargs), w2) \<Rightarrow>
                     (let (outputs, failure) = execute node_block input_data kwargs;
                          w3 = w2\<lparr>invoked := invoked w2 @ [node_exec_id]\<rparr>;
                          (err, yielded, w4) = process_outputs E node data outputs [] w3
                      in case (case err of Some e \<Rightarrow> Some e | None \<Rightarrow> map_option BlockError failure) of
                           None \<Rightarrow>
                             (yielded, Returned,
                              release_credentials creds_lock (update_execution_status w4 node_exec_id COMPLETED))
                         | Some e \<Rightarrow>
                             (let error_msg = str_exn e;
                                  w5 = update_execution_status
                                         (push_output w4 node_exec_id ''error'' (VStr error_msg)) node_exec_id FAILED
                              in (case enqueue_next_nodes E node (''error'', VStr error_msg)
                                          (e_user_id data) (e_graph_exec_id data) (e_graph_id data) w5 of
                                    (Inl e2, w6) \<Rightarrow> (yielded, Raised e2, release_credentials creds_lock w6)
                                  | (Inr es, w6) \<Rightarrow> (yielded @ es, Raised e, release_credentials creds_lock w6))))))"

section \<open>The execution manager: add_execution\<close>

text \<open>
  Modelled from the spec: a \<^verbatim>\<open>GraphModel\<close> has a version, its nodes and its
  \<^verbatim>\<open>starting_nodes\<close>; \<^verbatim>\<open>validate_graph(for_run=True)\<close> passes or raises, which
  is recorded with the graph as the message it raises, if any. The credentials store
  returns the credentials of an id, if the user has them.
\<close>

record GraphModel =
  gm_version :: int
  gm_nodes :: "Node list"
  starting_nodes :: "Node list"
  validate_graph :: "string option"

record Credentials =
  cr_id :: string
  cr_provider :: string
  cr_type :: string

record GraphExecutionEntry =
  gx_user_id :: string
  gx_graph_id :: string
  gx_graph_version :: int
  gx_graph_exec_id :: nat
  start_node_execs :: "NodeExecutionEntry list"

text \<open>The state an \<^verbatim>\<open>ExecutionManager\<close> works on: the store behind \<^verbatim>\<open>db_client\<close>
  and its intake \<^verbatim>\<open>queue\<close> of graph execution entries.\<close>

record ExecutionManager =
  db :: world
  queue :: "GraphExecutionEntry list"

text \<open>
  \<^verbatim>\<open>_validate_node_input_credentials\<close>: for every node of the graph and every
  credentials field of its block, the credentials named by the node's default input
  must exist for the user and agree in provider and type.
\<close>

fun check_credentials_fields :: "(string \<Rightarrow> string \<Rightarrow> Credentials option) \<Rightarrow> string \<Rightarrow> Node \<Rightarrow> (string \<times> (val \<Rightarrow> CredentialsMeta option)) list \<Rightarrow> exn option" where
  "check_credentials_fields get_creds_by_id user_id node [] = None"
| "check_credentials_fields get_creds_by_id user_id node ((field_name, credentials_meta_type) # rest) =
     (case map_of (input_default node) field_name of
        None \<Rightarrow> Some (KeyError field_name)
      | Some v \<Rightarrow>
          (case credentials_meta_type v of
             None \<Rightarrow> Some (TypeError field_name)
           | Some credentials_meta \<Rightarrow>
               (case get_creds_by_id user_id (cm_id credentials_meta) of
                  None \<Rightarrow>
                    Some (ValueError (''Unknown credentials #'' @ cm_id credentials_meta @ '' for node #'' @ n_id node
                                      @ '' input '' @ [CHR 0x27] @ field_name @ [CHR 0x27]))
                | Some credentials \<Rightarrow>
                    if cr_provider credentials \<noteq> cm_provider credentials_meta
                       \<or> cr_type credentials \<noteq> cm_type credentials_meta
                    then Some (ValueError (''Invalid credentials #'' @ cr_id credentials @ '' for node #'' @ n_id node
                                           @ '': type/provider mismatch''))
                    else check_credentials_fields get_creds_by_id user_id node rest)))"

fun validate_node_input_credentials :: "(string \<Rightarrow> string \<Rightarrow> Credentials option) \<Rightarrow> Node list \<Rightarrow> string \<Rightarrow> exn option" where
  "validate_node_input_credentials get_creds_by_id [] user_id = None"
| "validate_node_input_credentials get_creds_by_id (node # rest) user_id =
     (case check_credentials_fields get_creds_by_id user_id node
             (get_credentials_fields (input_schema (block node))) of
        Some e \<Rightarrow> Some e
      | None \<Rightarrow> validate_node_input_credentials get_creds_by_id rest user_id)"

text \<open>
  The input a starting node gets from the request: an INPUT block reads the request
  value of its \<open>name\<close>, a webhook block with a webhook id the payload of its webhook,
  which must be there. \<^verbatim>\<open>input_name in data\<close> raises for a name that is a non-empty
  list or dict, which cannot be hashed.
\<close>

definition request_input :: "BlockInput \<Rightarrow> Node \<Rightarrow> exn + BlockInput" where
  "request_input data node =
     (if block_type (block node) = INPUT
      then (case map_of (input_default node) ''name'' of
              None \<Rightarrow> Inr []
            | Some input_name \<Rightarrow>
                if truthy input_name
                then (case input_name of
                        VStr s \<Rightarrow> (case map_of data s of None \<Rightarrow> Inr [] | Some v \<Rightarrow> Inr [(''value'', v)])
                      | VList xs \<Rightarrow> Inl (TypeError ''unhashable type'')
                      | VDict kvs \<Rightarrow> Inl (TypeError ''unhashable type'')
                      | _ \<Rightarrow> Inr [])
                else Inr [])
      else Inr [])"

definition webhook_input :: "BlockInput \<Rightarrow> Node \<Rightarrow> BlockInput \<Rightarrow> exn + BlockInput" where
  "webhook_input data node input_data =
     (case webhook_id node of
        None \<Rightarrow> Inr input_data
      | Some wid \<Rightarrow>
          if block_type (block node) \<in> {WEBHOOK, WEBHOOK_MANUAL} \<and> wid \<noteq> []
          then (case map_of data (''webhook_'' @ wid @ ''_payload'') of
                  None \<Rightarrow> Inl (ValueError (''Node '' @ b_name (block node) @ '' #'' @ n_id node
                                            @ '' webhook payload is missing''))
                | Some v \<Rightarrow> Inr [(''payload'', v)])
          else Inr input_data)"

text \<open>The loop of \<^verbatim>\<open>add_execution\<close> over \<^verbatim>\<open>graph.starting_nodes\<close>, which collects
  \<^verbatim>\<open>nodes_input\<close>.\<close>

fun starting_inputs :: "env \<Rightarrow> BlockInput \<Rightarrow> Node list \<Rightarrow> (string \<times> BlockInput) list \<Rightarrow> exn + (string \<times> BlockInput) list" where
  "starting_inputs E data [] nodes_input = Inr nodes_input"
| "starting_inputs E data (node # rest) nodes_input =
     (if block_type (block node) = NOTE
      then starting_inputs E data rest nodes_input
      else (case request_input data node of
              Inl e \<Rightarrow> Inl e
            | Inr input_data0 \<Rightarrow>
                (case webhook_input data node input_data0 of
                   Inl e \<Rightarrow> Inl e
                 | Inr input_data1 \<Rightarrow>
                     (case validate_exec E node input_data1 True of
                        (None, error) \<Rightarrow> Inl (ValueError error)
                      | (Some input_data, name) \<Rightarrow>
                          starting_inputs E data rest (nodes_input @ [(n_id node, input_data)])))))"

definition no_starting_nodes :: string where
  "no_starting_nodes = ''No starting nodes found for the graph, make sure an AgentInput or blocks with no inbound links are present as starting nodes.''"

text \<open>
  Modelled from the spec: \<^verbatim>\<open>create_graph_execution\<close> persists a queued graph
  execution with one queued node execution for each seed and returns its id with the
  node executions created.
\<close>

definition create_graph_execution :: "env \<Rightarrow> world \<Rightarrow> string \<Rightarrow> (string \<times> BlockInput) list \<Rightarrow> string \<Rightarrow> (nat \<times> (nat \<times> NodeExecutionResult) list) \<times> world" where
  "create_graph_execution E w graph_id nodes_input user_id =
     (let g = length (graph_execs w);
          created = map (\<lambda>(node_id, input_data).
                      \<lparr>r_graph_exec_id = g, r_node_id = node_id, r_block_id = block_id (get_node E node_id),
                       r_status = QUEUED, r_input_data = input_data, r_output_data = []\<rparr>) nodes_input
      in ((g, enumerate (length (node_execs w)) created),
          w\<lparr>graph_execs := graph_execs w @ [\<lparr>ge_graph_id = graph_id, ge_user_id = user_id,
                                              ge_status = QUEUED, ge_stats = None\<rparr>],
            node_execs := node_execs w @ created\<rparr>))"

text \<open>\<^verbatim>\<open>add_execution\<close> returns the entry it has put on the queue, or raises.\<close>

definition add_execution :: "env \<Rightarrow> (string \<Rightarrow> string \<Rightarrow> int option \<Rightarrow> GraphModel option) \<Rightarrow> (string \<Rightarrow> string \<Rightarrow> Credentials option) \<Rightarrow> ExecutionManager \<Rightarrow> string \<Rightarrow> BlockInput \<Rightarrow> string \<Rightarrow> int option \<Rightarrow> (exn + GraphExecutionEntry) \<times> ExecutionManager" where
  "add_execution E get_graph get_creds_by_id m graph_id data user_id graph_version =
     (case get_graph graph_id user_id graph_version of
        None \<Rightarrow> (Inl (ValueError (''Graph #'' @ graph_id @ '' not found.'')), m)
      | Some graph \<Rightarrow>
          (case validate_graph graph of
             Some msg \<Rightarrow> (Inl (ValueError msg), m)
           | None \<Rightarrow>
               (case validate_node_input_credentials get_creds_by_id (gm_nodes graph) user_id of
                  Some e \<Rightarrow> (Inl e, m)
                | None \<Rightarrow>
                    (case starting_inputs E data (starting_nodes graph) [] of
                       Inl e \<Rightarrow> (Inl e, m)
                     | Inr nodes_input \<Rightarrow>
                         if nodes_input = []
                         then (Inl (ValueError no_starting_nodes), m)
                         else
                           (let ((g, node_executions), w1) =
                                  create_graph_execution E (db m) graph_id nodes_input user_id;
                                w2 = send_execution_update w1 (GraphUpdate g QUEUED);
                                graph_exec_entry =
                                  \<lparr>gx_user_id = user_id, gx_graph_id = graph_id,
                                   gx_graph_version = (case graph_version of None \<Rightarrow> 0 | Some v \<Rightarrow> v),
                                   gx_graph_exec_id = g,
                                   start_node_execs =
                                     map (\<lambda>(i, node_exec).
                                            \<lparr>e_user_id = user_id, e_graph_exec_id = r_graph_exec_id node_exec,
                                             e_graph_id = graph_id, e_node_exec_id = i,
                                             e_node_id = r_node_id node_exec, e_block_id = r_block_id node_exec,
                                             e_data = r_input_data node_exec\<rparr>) node_executions\<rparr>
                            in (Inr graph_exec_entry, m\<lparr>db := w2, queue := queue m @ [graph_exec_entry]\<rparr>))))))"

section \<open>The graph scheduler\<close>

text \<open>
  Modelled from the spec: \<^verbatim>\<open>spend_credits\<close> debits the user's balance in the credit
  ledger, or raises \<^verbatim>\<open>InsufficientBalanceError\<close> with the balance and the amount asked
  for; \<^verbatim>\<open>get_graph_metadata\<close> gives the name of the graph;
  \<^verbatim>\<open>update_graph_execution_start_time\<close> marks the graph execution RUNNING and returns
  it.
\<close>

definition balance_of :: "world \<Rightarrow> string \<Rightarrow> int" where
  "balance_of w user_id = (case map_of (ledger w) user_id of None \<Rightarrow> 0 | Some b \<Rightarrow> b)"

definition spend_credits :: "world \<Rightarrow> string \<Rightarrow> int \<Rightarrow> exn + world" where
  "spend_credits w user_id amount =
     (if balance_of w user_id < amount
      then Inl (InsufficientBalanceError ''Insufficient balance'' (balance_of w user_id) amount)
      else Inr (w\<lparr>ledger := AList.update user_id (balance_of w user_id - amount) (ledger w)\<rparr>))"

definition agent_name_of :: "world \<Rightarrow> string \<Rightarrow> string" where
  "agent_name_of w graph_id =
     (case map_of (graph_names w) graph_id of Some name \<Rightarrow> name | None \<Rightarrow> ''Unknown Agent'')"

definition update_graph_execution_start_time :: "world \<Rightarrow> nat \<Rightarrow> world" where
  "update_graph_execution_start_time w g =
     (case update_graph_execution_stats w g RUNNING None of
        (Some ge, w1) \<Rightarrow> send_execution_update w1 (GraphUpdate g (ge_status ge))
      | (None, w1) \<Rightarrow> w1)"

text \<open>
  \<^verbatim>\<open>_charge_usage\<close>: the cost of the block for this input, then the cost of the
  execution count; each is spent when positive and added to \<^verbatim>\<open>execution_stats.cost\<close>,
  which is updated in place, so what was added before a refusal stays. It returns the
  new execution count, or raises what \<^verbatim>\<open>spend_credits\<close> raised.
\<close>

definition charge_usage :: "env \<Rightarrow> NodeExecutionEntry \<Rightarrow> int \<Rightarrow> GraphExecutionStats \<Rightarrow> world \<Rightarrow> (exn + int) \<times> GraphExecutionStats \<times> world" where
  "charge_usage E node_exec execution_count stats w =
     (case get_block E (e_block_id node_exec) of
        None \<Rightarrow> (Inr execution_count, stats, w)
      | Some blk \<Rightarrow>
          (let (cost1, matching_filter) = block_usage_cost E blk (e_data node_exec)
           in case (if cost1 > 0 then spend_credits w (e_user_id node_exec) cost1 else Inr w) of
                Inl e \<Rightarrow> (Inl e, stats, w)
              | Inr w1 \<Rightarrow>
                  (let stats1 = (if cost1 > 0 then stats\<lparr>cost := cost stats + cost1\<rparr> else stats);
                       (cost2, execution_count2) = execution_usage_cost E execution_count
                   in case (if cost2 > 0 then spend_credits w1 (e_user_id node_exec) cost2 else Inr w1) of
                        Inl e \<Rightarrow> (Inl e, stats1, w1)
                      | Inr w2 \<Rightarrow>
                          (Inr execution_count2,
                           (if cost2 > 0 then stats1\<lparr>cost := cost stats1 + cost2\<rparr> else stats1), w2))))"

text \<open>\<^verbatim>\<open>_handle_low_balance_notif(user_id, graph_id, exec_stats, e)\<close>, with the balance
  and the amount of the error \<open>e\<close>.\<close>

definition handle_low_balance_notif :: "env \<Rightarrow> world \<Rightarrow> string \<Rightarrow> string \<Rightarrow> GraphExecutionStats \<Rightarrow> int \<Rightarrow> int \<Rightarrow> world" where
  "handle_low_balance_notif E w user_id graph_id exec_stats e_balance e_amount =
     w\<lparr>notifications := notifications w @
          [LOW_BALANCE user_id
             \<lparr>current_balance = cost exec_stats,
              billing_page_link = base_url E @ ''/profile/credits'',
              shortfall = e_balance - e_amount,
              lb_agent_name = agent_name_of w graph_id\<rparr>]\<rparr>"

text \<open>\<^verbatim>\<open>_handle_agent_run_notif\<close>; the outputs and the execution time of the payload are
  left out.\<close>

definition handle_agent_run_notif :: "world \<Rightarrow> GraphExecutionEntry \<Rightarrow> GraphExecutionStats \<Rightarrow> world" where
  "handle_agent_run_notif w graph_exec exec_stats =
     w\<lparr>notifications := notifications w @
          [AGENT_RUN (gx_user_id graph_exec)
             \<lparr>ar_agent_name = agent_name_of w (gx_graph_id graph_exec),
              credits_used = cost exec_stats,
              ar_graph_id = gx_graph_id graph_exec,
              ar_node_count = node_count exec_stats\<rparr>]\<rparr>"

subsection \<open>The threads of a graph run\<close>

text \<open>
  \<^verbatim>\<open>_on_graph_execution\<close> runs in the main thread of a graph worker, beside the
  \<^verbatim>\<open>cancel_handler\<close> thread it starts, the node workers of the pool, and whoever sets
  the cancel event. The state they share: the store and the other collaborators, the
  queue of node execution entries, \<^verbatim>\<open>running_executions\<close> (node id to task), the
  tasks given to the pool (an \<^verbatim>\<open>AsyncResult\<close> is named by its position), the local
  variables of \<^verbatim>\<open>_on_graph_execution\<close> that the closures share, the cancel event, the
  place each of the two threads is at, and the value returned.
\<close>

record AsyncResult =
  a_entry :: NodeExecutionEntry
  a_ready :: bool
  a_terminated :: bool

datatype main_pc =
    AtSeed
  | AtLoop
  | AtSameNode NodeExecutionEntry
  | AtWait NodeExecutionEntry nat
  | AtCharge NodeExecutionEntry
  | AtSubmit NodeExecutionEntry
  | AtIdle
  | AtIdleFor "(string \<times> nat) list"
  | AtFinally
  | AtJoin
  | AtEnd

datatype handler_pc = Watching | Terminating | Reinitializing | Exited

record scheduler =
  s_world :: world
  exec_queue :: "NodeExecutionEntry list"
  running_executions :: "(string \<times> nat) list"
  pool_tasks :: "AsyncResult list"
  exec_cost_counter :: int
  execution_stats :: GraphExecutionStats
  execution_status :: ExecutionStatus
  run_error :: "exn option"
  finished :: bool
  cancel_set :: bool
  main_at :: main_pc
  handler_at :: handler_pc
  returned_value :: "(GraphExecutionStats \<times> ExecutionStatus \<times> exn option) option"

text \<open>The state at the head of \<^verbatim>\<open>_on_graph_execution\<close>, after \<^verbatim>\<open>on_graph_execution\<close>
  has recorded the start and the cancel thread has been started.\<close>

definition start_graph_execution :: "GraphExecutionEntry \<Rightarrow> world \<Rightarrow> scheduler" where
  "start_graph_execution graph_exec w =
     \<lparr>s_world = update_graph_execution_start_time w (gx_graph_exec_id graph_exec),
      exec_queue = [], running_executions = [], pool_tasks = [], exec_cost_counter = 0,
      execution_stats = \<lparr>cost = 0, node_count = 0, node_error_count = 0, stats_error = None\<rparr>,
      execution_status = RUNNING, run_error = None, finished = False, cancel_set = False,
      main_at = AtSeed, handler_at = Watching, returned_value = None\<rparr>"

text \<open>
  The handler:
  \<^verbatim>\<open>while not cancel.is_set(): cancel.wait(1)
  if finished: return
  execution_status = ExecutionStatus.TERMINATED
  cls.executor.terminate()
  cls._init_node_executor_pool()\<close>
  Terminating the pool kills the tasks in flight: they never become ready.
\<close>

definition handler_step :: "scheduler \<Rightarrow> scheduler" where
  "handler_step s =
     (case handler_at s of
        Watching \<Rightarrow>
          if \<not> cancel_set s then s
          else if finished s then s\<lparr>handler_at := Exited\<rparr>
          else s\<lparr>execution_status := TERMINATED, handler_at := Terminating\<rparr>
      | Terminating \<Rightarrow>
          s\<lparr>pool_tasks := map (\<lambda>t. if a_ready t then t else t\<lparr>a_terminated := True\<rparr>) (pool_tasks s),
            handler_at := Reinitializing\<rparr>
      | Reinitializing \<Rightarrow> s\<lparr>handler_at := Exited\<rparr>
      | Exited \<Rightarrow> s)"

text \<open>
  A node worker runs \<^verbatim>\<open>on_node_execution(queue, exec_data)\<close> for a task: it adds the
  entries \<^verbatim>\<open>execute_node\<close> yields to the queue and catches what it raises; then the
  pool calls the callback of the task with the statistics returned and marks the task
  ready. The callback pops the node id from \<^verbatim>\<open>running_executions\<close>, counts the node,
  and persists and broadcasts the statistics with the current \<^verbatim>\<open>execution_status\<close>.
  The error that \<^verbatim>\<open>on_node_execution\<close> returns in the statistics is a string, so the
  callback's test \<^verbatim>\<open>isinstance(err, Exception)\<close> fails and \<^verbatim>\<open>node_error_count\<close>
  stays. The run of the worker is taken as one step.
\<close>

definition finish_task :: "env \<Rightarrow> nat \<Rightarrow> scheduler \<Rightarrow> scheduler" where
  "finish_task E t s =
     (if t < length (pool_tasks s) \<and> \<not> a_ready (pool_tasks s ! t) \<and> \<not> a_terminated (pool_tasks s ! t)
      then
        (let exec_data = a_entry (pool_tasks s ! t);
             (entries, out, w1) = execute_node E exec_data (s_world s);
             stats = (execution_stats s)\<lparr>node_count := node_count (execution_stats s) + 1\<rparr>;
             w2 = (case update_graph_execution_stats w1 (e_graph_exec_id exec_data) (execution_status s) (Some stats) of
                     (Some ge, w) \<Rightarrow> send_execution_update w (GraphUpdate (e_graph_exec_id exec_data) (ge_status ge))
                   | (None, w) \<Rightarrow> w)
         in s\<lparr>s_world := w2,
              exec_queue := exec_queue s @ entries,
              running_executions := AList.delete (e_node_id exec_data) (running_executions s),
              execution_stats := stats,
              pool_tasks := (pool_tasks s)[t := (pool_tasks s ! t)\<lparr>a_ready := True\<rparr>]\<rparr>)
      else s)"

text \<open>
  The \<^verbatim>\<open>except InsufficientBalanceError\<close> branch of the dispatch: the error becomes the
  \<open>error\<close> output of the node execution, the run and the node execution are set to
  FAILED, the notification is queued, and the error is raised again, which the
  \<^verbatim>\<open>except Exception\<close> of the run keeps in \<^verbatim>\<open>error\<close>.
\<close>

definition insufficient_balance :: "env \<Rightarrow> GraphExecutionEntry \<Rightarrow> NodeExecutionEntry \<Rightarrow> exn \<Rightarrow> int \<Rightarrow> int \<Rightarrow> scheduler \<Rightarrow> scheduler" where
  "insufficient_balance E graph_exec exec_data e e_balance e_amount s =
     (let w1 = upsert_execution_output (s_world s) (e_node_exec_id exec_data) ''error'' (VStr (str_exn e));
          w2 = update_and_send w1 (e_node_exec_id exec_data) FAILED None;
          w3 = handle_low_balance_notif E w2 (gx_user_id graph_exec) (gx_graph_id graph_exec)
                 (execution_stats s) e_balance e_amount
      in s\<lparr>s_world := w3, execution_status := FAILED, run_error := Some e, main_at := AtFinally\<rparr>)"

text \<open>
  The main thread, one statement or test at a step. A \<^verbatim>\<open>return\<close> inside the
  \<^verbatim>\<open>try\<close> goes to the \<^verbatim>\<open>finally\<close> block, whose own \<^verbatim>\<open>return\<close> is the one that
  gives the value. \<^verbatim>\<open>execution.wait()\<close> lets the thread go on when the task is ready,
  \<^verbatim>\<open>execution.wait(3)\<close> in any case, and \<^verbatim>\<open>cancel_thread.join()\<close> when the handler
  has returned; a step of a thread that waits changes nothing.
\<close>

definition main_step :: "env \<Rightarrow> GraphExecutionEntry \<Rightarrow> scheduler \<Rightarrow> scheduler" where
  "main_step E graph_exec s =
     (case main_at s of
        AtSeed \<Rightarrow> s\<lparr>exec_queue := exec_queue s @ start_node_execs graph_exec, main_at := AtLoop\<rparr>
      | AtLoop \<Rightarrow>
          (case exec_queue s of
             [] \<Rightarrow> s\<lparr>main_at := AtFinally\<rparr>
           | exec_data # rest \<Rightarrow>
               if cancel_set s
               then s\<lparr>execution_status := TERMINATED, main_at := AtFinally\<rparr>
               else s\<lparr>exec_queue := rest, main_at := AtSameNode exec_data\<rparr>)
      | AtSameNode exec_data \<Rightarrow>
          (case map_of (running_executions s) (e_node_id exec_data) of
             None \<Rightarrow> s\<lparr>main_at := AtCharge exec_data\<rparr>
           | Some t \<Rightarrow>
               if \<not> a_ready (pool_tasks s ! t)
               then s\<lparr>main_at := AtWait exec_data t\<rparr>
               else s\<lparr>main_at := AtCharge exec_data\<rparr>)
      | AtWait exec_data t \<Rightarrow>
          if a_ready (pool_tasks s ! t) then s\<lparr>main_at := AtCharge exec_data\<rparr> else s
      | AtCharge exec_data \<Rightarrow>
          (case charge_usage E exec_data (exec_cost_counter s + 1) (execution_stats s) (s_world s) of
             (Inr execution_count, stats, w) \<Rightarrow>
               s\<lparr>s_world := w, execution_stats := stats, exec_cost_counter := execution_count,
                 main_at := AtSubmit exec_data\<rparr>
           | (Inl (InsufficientBalanceError msg e_balance e_amount), stats, w) \<Rightarrow>
               insufficient_balance E graph_exec exec_data (InsufficientBalanceError msg e_balance e_amount)
                 e_balance e_amount (s\<lparr>s_world := w, execution_stats := stats\<rparr>)
           | (Inl e, stats, w) \<Rightarrow>
               s\<lparr>s_world := w, execution_stats := stats, run_error := Some e, main_at := AtFinally\<rparr>)
      | AtSubmit exec_data \<Rightarrow>
          s\<lparr>pool_tasks := pool_tasks s @ [\<lparr>a_entry = exec_data, a_ready = False, a_terminated = False\<rparr>],
            running_executions := AList.update (e_node_id exec_data) (length (pool_tasks s)) (running_executions s),
            main_at := AtIdle\<rparr>
      | AtIdle \<Rightarrow>
          if exec_queue s = [] \<and> running_executions s \<noteq> []
          then s\<lparr>main_at := AtIdleFor (running_executions s)\<rparr>
          else s\<lparr>main_at := AtLoop\<rparr>
      | AtIdleFor items \<Rightarrow>
          (case items of
             [] \<Rightarrow> s\<lparr>main_at := AtIdle\<rparr>
           | (node_id, execution) # rest \<Rightarrow>
               if cancel_set s
               then s\<lparr>execution_status := TERMINATED, main_at := AtFinally\<rparr>
               else if exec_queue s \<noteq> []
               then s\<lparr>main_at := AtIdle\<rparr>
               else s\<lparr>main_at := AtIdleFor rest\<rparr>)
      | AtFinally \<Rightarrow>
          (let s1 = s\<lparr>execution_status := (if run_error s \<noteq> None then FAILED else COMPLETED)\<rparr>;
               s2 = (if \<not> cancel_set s1 then s1\<lparr>finished := True, cancel_set := True\<rparr> else s1)
           in s2\<lparr>main_at := AtJoin\<rparr>)
      | AtJoin \<Rightarrow>
          if handler_at s = Exited
          then s\<lparr>returned_value := Some (execution_stats s, execution_status s, run_error s), main_at := AtEnd\<rparr>
          else s
      | AtEnd \<Rightarrow> s)"

text \<open>A run is driven by the order in which the threads take their steps: the main
  thread, the cancel handler, the worker of a task, or the setting of the cancel
  event.\<close>

datatype event = Main | Handler | Worker nat | Cancel

definition step :: "env \<Rightarrow> GraphExecutionEntry \<Rightarrow> scheduler \<Rightarrow> event \<Rightarrow> scheduler" where
  "step E graph_exec s ev =
     (case ev of
        Main \<Rightarrow> main_step E graph_exec s
      | Handler \<Rightarrow> handler_step s
      | Worker t \<Rightarrow> finish_task E t s
      | Cancel \<Rightarrow> s\<lparr>cancel_set := True\<rparr>)"

definition run_events :: "env \<Rightarrow> GraphExecutionEntry \<Rightarrow> event list \<Rightarrow> scheduler \<Rightarrow> scheduler" where
  "run_events E graph_exec evs s = foldl (step E graph_exec) s evs"

text \<open>
  \<^verbatim>\<open>on_graph_execution\<close>: what it does with the value \<^verbatim>\<open>_on_graph_execution\<close> has
  returned: the error goes into the statistics as a string, status and statistics are
  persisted, and broadcast when the store returns the execution, and the notification
  of the run is queued. It gives the status returned and the state of the store, or
  nothing while the run has not returned.
\<close>

definition str_error :: "exn option \<Rightarrow> string" where
  "str_error e = (case e of None \<Rightarrow> ''None'' | Some x \<Rightarrow> str_exn x)"

definition on_graph_execution :: "env \<Rightarrow> GraphExecutionEntry \<Rightarrow> event list \<Rightarrow> world \<Rightarrow> (ExecutionStatus \<times> world) option" where
  "on_graph_execution E graph_exec evs w =
     (case returned_value (run_events E graph_exec evs (start_graph_execution graph_exec w)) of
        None \<Rightarrow> None
      | Some (exec_stats0, status, err) \<Rightarrow>
          (let w0 = s_world (run_events E graph_exec evs (start_graph_execution graph_exec w));
               exec_stats = exec_stats0\<lparr>stats_error := Some (str_error err)\<rparr>;
               w1 = (case update_graph_execution_stats w0 (gx_graph_exec_id graph_exec) status (Some exec_stats) of
                       (Some ge, w') \<Rightarrow> send_execution_update w' (GraphUpdate (gx_graph_exec_id graph_exec) (ge_status ge))
                     | (None, w') \<Rightarrow> w')
           in Some (status, handle_agent_run_notif w1 graph_exec exec_stats)))"

section \<open>A small graph used to run the definitions\<close>

text \<open>
  A schema in the style of the block catalogue: a link is missing when its sink pin
  has no value, an input is missing when a required field has no value, the defaults
  are the node's own, and no value is ever rejected.
\<close>

definition plain_schema :: "string list \<Rightarrow> (string \<times> pytype) list \<Rightarrow> (string \<times> (val \<Rightarrow> CredentialsMeta option)) list \<Rightarrow> BlockSchema" where
  "plain_schema required anns creds =
     \<lparr>annotations = anns,
      get_missing_links = (\<lambda>data links. filter (\<lambda>n. map_of data n = None) (map sink_name links)),
      get_input_defaults = (\<lambda>d. d),
      get_missing_input = (\<lambda>data. filter (\<lambda>n. map_of data n = None) required),
      get_mismatch_error = (\<lambda>data. None),
      get_credentials_fields = creds\<rparr>"

text \<open>A block that echoes its input \<open>x\<close> on the pin \<open>out\<close>.\<close>

definition echo_block :: "string list \<Rightarrow> (string \<times> pytype) list \<Rightarrow> Block" where
  "echo_block required anns =
     \<lparr>b_id = ''echo'', b_name = ''Echo'', block_type = STANDARD, is_agent_executor = False,
      input_schema = plain_schema required anns [],
      execute = (\<lambda>input kwargs. (case map_of input ''x'' of
                                      None \<Rightarrow> ([], None)
                                    | Some v \<Rightarrow> ([(''out'', v)], None)))\<rparr>"

definition lone_node :: "Block \<Rightarrow> Node" where
  "lone_node b =
     \<lparr>n_id = ''n1'', block_id = b_id b, block = b, input_default = [], input_links = [],
      output_links = [], webhook_id = None\<rparr>"

text \<open>The projection of an output through a pin name, for plain pins.\<close>

definition plain_parse :: "string \<times> val \<Rightarrow> string \<Rightarrow> val option" where
  "plain_parse output name = (if fst output = name \<and> snd output \<noteq> VNone then Some (snd output) else None)"

text \<open>A conversion to strings in the manner of \<^verbatim>\<open>convert\<close>.\<close>

fun to_str :: "val \<Rightarrow> pytype \<Rightarrow> val" where
  "to_str (VBool b) TStr = VStr (if b then ''True'' else ''False'')"
| "to_str v t = v"

definition env_of :: "Block list \<Rightarrow> Node list \<Rightarrow> env" where
  "env_of blocks nodes =
     \<lparr>get_block = (\<lambda>i. find (\<lambda>b. b_id b = i) blocks),
      get_node = (\<lambda>i. case find (\<lambda>n. n_id n = i) nodes of Some n \<Rightarrow> n | None \<Rightarrow> lone_node (echo_block [] [])),
      convert = to_str,
      merge_execution_input = (\<lambda>d. d),
      parse_execution_output = plain_parse,
      block_usage_cost = (\<lambda>b input. (0, [])),
      execution_usage_cost = (\<lambda>n. (0, n)),
      base_url = ''https://platform.example''\<rparr>"

definition node_exec :: "nat \<Rightarrow> string \<Rightarrow> ExecutionStatus \<Rightarrow> BlockInput \<Rightarrow> NodeExecutionResult" where
  "node_exec g n st data =
     \<lparr>r_graph_exec_id = g, r_node_id = n, r_block_id = ''echo'', r_status = st,
      r_input_data = data, r_output_data = []\<rparr>"

definition graph_exec :: "ExecutionStatus \<Rightarrow> GraphExecution" where
  "graph_exec st = \<lparr>ge_graph_id = ''g'', ge_user_id = ''u'', ge_status = st, ge_stats = None\<rparr>"

definition world_of :: "NodeExecutionResult list \<Rightarrow> GraphExecution list \<Rightarrow> world" where
  "world_of ns gs =
     \<lparr>node_execs = ns, graph_execs = gs, sent = [], locks = [], notifications = [],
      ledger = [], graph_names = [], invoked = []\<rparr>"


text \<open>A sink \<open>C\<close> fed by a dynamic link on \<open>x\<close> and a static link on \<open>cfg\<close>; its
  schema rejects the value \<open>bad\<close> on \<open>x\<close>.\<close>

definition x_link :: Link where
  "x_link = \<lparr>source_id = ''A'', source_name = ''out'', sink_id = ''C'', sink_name = ''x'', is_static = False\<rparr>"

definition cfg_link :: Link where
  "cfg_link = \<lparr>source_id = ''B'', source_name = ''out'', sink_id = ''C'', sink_name = ''cfg'', is_static = True\<rparr>"

definition sink_block :: Block where
  "sink_block =
     \<lparr>b_id = ''sink'', b_name = ''Sink'', block_type = STANDARD, is_agent_executor = False,
      input_schema = (plain_schema [''x'', ''cfg''] [] [])
         \<lparr>get_mismatch_error := (\<lambda>data. if map_of data ''x'' = Some (VStr ''bad'') then Some ''x is bad'' else None)\<rparr>,
      execute = (\<lambda>input kwargs. ([], None))\<rparr>"

definition sink_node :: Node where
  "sink_node =
     \<lparr>n_id = ''C'', block_id = ''sink'', block = sink_block, input_default = [],
      input_links = [x_link, cfg_link], output_links = [], webhook_id = None\<rparr>"

definition static_env :: env where
  "static_env = env_of [sink_block] [sink_node]"

definition static_world :: world where
  "static_world =
     world_of [node_exec 0 ''C'' INCOMPLETE [(''x'', VInt 1)], node_exec 0 ''C'' INCOMPLETE [(''x'', VInt 2)]]
              [graph_exec RUNNING]"

definition stuck_world :: world where
  "stuck_world =
     world_of [node_exec 0 ''C'' INCOMPLETE [(''x'', VStr ''bad'')], node_exec 0 ''C'' INCOMPLETE [(''x'', VInt 2)]]
              [graph_exec RUNNING]"

definition entry_of :: "nat \<Rightarrow> BlockInput \<Rightarrow> NodeExecutionEntry" where
  "entry_of i d = \<lparr>e_user_id = ''u'', e_graph_exec_id = 0, e_graph_id = ''g'', e_node_exec_id = i,
                    e_node_id = ''C'', e_block_id = ''sink'', e_data = d\<rparr>"


text \<open>An entry of user \<open>u\<close> for node \<open>n1\<close>, and a store with one queued execution.\<close>

definition entry_for :: "nat \<Rightarrow> BlockInput \<Rightarrow> NodeExecutionEntry" where
  "entry_for i d = \<lparr>e_user_id = ''u'', e_graph_exec_id = 0, e_graph_id = ''g'', e_node_exec_id = i,
                     e_node_id = ''n1'', e_block_id = ''echo'', e_data = d\<rparr>"

definition queued_world :: world where
  "queued_world = world_of [node_exec 0 ''n1'' QUEUED []] [graph_exec RUNNING]"

text \<open>A block that declares two credentials fields and produces nothing; the metadata
  of a field is read from a dict with an \<open>id\<close>.\<close>

fun creds_meta :: "val \<Rightarrow> CredentialsMeta option" where
  "creds_meta (VDict kvs) =
     (case map_of kvs ''id'' of
        Some (VStr i) \<Rightarrow> Some \<lparr>cm_id = i, cm_provider = ''github'', cm_type = ''api_key''\<rparr>
      | _ \<Rightarrow> None)"
| "creds_meta v = None"

definition two_creds_block :: Block where
  "two_creds_block =
     \<lparr>b_id = ''echo'', b_name = ''TwoCreds'', block_type = STANDARD, is_agent_executor = False,
      input_schema = plain_schema [''c1'', ''c2''] [] [(''c1'', creds_meta), (''c2'', creds_meta)],
      execute = (\<lambda>input kwargs. ([], None))\<rparr>"

definition two_creds_input :: BlockInput where
  "two_creds_input = [(''c1'', VDict [(''id'', VStr ''a'')]), (''c2'', VDict [(''id'', VStr ''b'')])]"














text \<open>The store of a run that was cancelled while the entry of its only execution was
  still on its way to the node executor.\<close>

definition terminated_world :: world where
  "terminated_world = world_of [node_exec 0 ''n1'' TERMINATED []] [graph_exec TERMINATED]"









text \<open>
  A graph run of user \<open>u\<close> on graph \<open>g\<close>, named \<open>Agent\<close>: every block costs 3
  credits an execution, the execution count costs nothing, and the user has 5 credits.
  The run starts with the queued executions 0 of node \<open>n1\<close> and 1 of node \<open>n2\<close>.
\<close>

definition paid_env :: env where
  "paid_env =
     (env_of [echo_block [] []]
        [lone_node (echo_block [] []), (lone_node (echo_block [] []))\<lparr>n_id := ''n2''\<rparr>])
       \<lparr>block_usage_cost := (\<lambda>b input. (3, []))\<rparr>"

definition paid_world :: world where
  "paid_world =
     (world_of [node_exec 0 ''n1'' QUEUED [], node_exec 0 ''n2'' QUEUED []] [graph_exec QUEUED])
       \<lparr>ledger := [(''u'', 5)], graph_names := [(''g'', ''Agent'')]\<rparr>"

definition paid_run :: GraphExecutionEntry where
  "paid_run =
     \<lparr>gx_user_id = ''u'', gx_graph_id = ''g'', gx_graph_version = 1, gx_graph_exec_id = 0,
      start_node_execs = [entry_for 0 [], (entry_for 1 [])\<lparr>e_node_id := ''n2''\<rparr>]\<rparr>"

text \<open>A run with the one queued execution 0 of node \<open>n1\<close>, an echo block, at no cost.\<close>

definition single_run :: GraphExecutionEntry where
  "single_run =
     \<lparr>gx_user_id = ''u'', gx_graph_id = ''g'', gx_graph_version = 1, gx_graph_exec_id = 0,
      start_node_execs = [entry_for 0 []]\<rparr>"

definition single_world :: world where
  "single_world = world_of [node_exec 0 ''n1'' QUEUED []] [graph_exec QUEUED]"

text \<open>A run with two queued executions of the node \<open>n1\<close>, whose block declares the
  credentials fields \<open>c1\<close> and \<open>c2\<close>; the value given for \<open>c1\<close> has no \<open>id\<close>.\<close>

definition bad_creds_input :: BlockInput where
  "bad_creds_input = [(''c1'', VDict []), (''c2'', VDict [(''id'', VStr ''b'')])]"

definition twice_run :: GraphExecutionEntry where
  "twice_run =
     \<lparr>gx_user_id = ''u'', gx_graph_id = ''g'', gx_graph_version = 1, gx_graph_exec_id = 0,
      start_node_execs = [entry_for 0 bad_creds_input, entry_for 1 bad_creds_input]\<rparr>"

definition twice_world :: world where
  "twice_world =
     world_of [node_exec 0 ''n1'' QUEUED bad_creds_input, node_exec 0 ''n1'' QUEUED bad_creds_input]
              [graph_exec QUEUED]"

section \<open>Properties of input validation\<close>

lemma convert_inputs_absent:
  "map_of data name = None \<Longrightarrow> map_of (convert_inputs conv anns data) name = None"
proof (induction anns arbitrary: data)
  case Nil
  then show ?case by simp
next
  case (Cons a anns)
  obtain n t where a: "a = (n, t)" by (cases a)
  show ?case
    using Cons.prems unfolding a
    by (auto intro!: Cons.IH simp: update_conv' split: option.splits)
qed

lemma convert_inputs_falsy:
  "map_of data name = Some v \<Longrightarrow> \<not> truthy v \<Longrightarrow> map_of (convert_inputs conv anns data) name = Some v"
proof (induction anns arbitrary: data)
  case Nil
  then show ?case by simp
next
  case (Cons a anns)
  obtain n t where a: "a = (n, t)" by (cases a)
  show ?case
    using Cons.prems unfolding a
    by (auto intro!: Cons.IH simp: update_conv' split: option.splits)
qed

text \<open>
  C10. In \<^verbatim>\<open>validate_exec\<close> the conversion is applied to a provided value only when
  the value is truthy: a falsy value (0, the empty string, False, an empty list or
  dict) of a field of the block found for the node reaches the schema checks as it
  was provided, whatever the declared type of the field.
\<close>

theorem validate_exec_falsy_not_coerced:
  assumes "get_block E (block_id node) = Some node_block"
    and "map_of data name = Some v"
    and "\<not> truthy v"
  shows "validate_exec E node data resolve_input =
           check_input E node node_block
             (convert_inputs (convert E) (annotations (input_schema node_block)) data) resolve_input
         \<and> map_of (convert_inputs (convert E) (annotations (input_schema node_block)) data) name = Some v"
  using assms by (simp add: validate_exec_def convert_inputs_falsy)

theorem validate_exec_falsy_not_coerced_witness:
  "get_block (env_of [echo_block [''x''] [(''x'', TStr)]] []) (block_id (lone_node (echo_block [''x''] [(''x'', TStr)])))
     = Some (echo_block [''x''] [(''x'', TStr)])
   \<and> map_of [(''x'', VInt 0)] ''x'' = Some (VInt 0)
   \<and> \<not> truthy (VInt 0)
   \<and> type_of (VInt 0) \<noteq> TStr
   \<and> validate_exec (env_of [echo_block [''x''] [(''x'', TStr)]] []) (lone_node (echo_block [''x''] [(''x'', TStr)]))
        [(''x'', VInt 0)] False = (Some [(''x'', VInt 0)], ''Echo'')
   \<and> map_of (convert_inputs (convert (env_of [echo_block [''x''] [(''x'', TStr)]] []))
        (annotations (input_schema (echo_block [''x''] [(''x'', TStr)]))) [(''x'', VInt 0)]) ''x'' = Some (VInt 0)"
proof -
  let ?b = "echo_block [''x''] [(''x'', TStr)]"
  let ?E = "env_of [?b] []"
  have g: "get_block ?E (block_id (lone_node ?b)) = Some ?b"
    by (simp add: env_of_def lone_node_def echo_block_def)
  have m: "map_of [(''x'', VInt 0)] ''x'' = Some (VInt 0)" by simp
  have f: "\<not> truthy (VInt 0)" by simp
  note t = validate_exec_falsy_not_coerced [OF g m f, of False]
  have c: "check_input ?E (lone_node ?b) ?b [(''x'', VInt 0)] False = (Some [(''x'', VInt 0)], ''Echo'')"
    by (simp add: check_input_def echo_block_def plain_schema_def lone_node_def dict_merge_def env_of_def)
  have ci: "convert_inputs (convert ?E) (annotations (input_schema ?b)) [(''x'', VInt 0)] = [(''x'', VInt 0)]"
    by (simp add: echo_block_def plain_schema_def)
  show ?thesis using g t c ci by simp
qed

section \<open>Properties of cancellation\<close>


















section \<open>Properties of the data-flow resolver\<close>

text \<open>The resolver run on the small graph.\<close>

lemmas fx = static_env_def env_of_def sink_node_def sink_block_def plain_schema_def cfg_link_def x_link_def
  world_of_def node_exec_def graph_exec_def plain_parse_def

lemma sink_valid:
  "v \<noteq> VStr ''bad'' \<Longrightarrow> validate_exec static_env sink_node [(''x'', v), (''cfg'', c)] True = (Some [(''x'', v), (''cfg'', c)], ''Sink'')"
  by (simp add: validate_exec_def check_input_def fx dict_merge_def Let_def)

lemma sink_invalid:
  "fst (validate_exec static_env sink_node [(''x'', VStr ''bad''), (''cfg'', c)] True) = None"
  by (simp add: validate_exec_def check_input_def fx dict_merge_def Let_def)

lemma gn: "get_node static_env ''C'' = sink_node"
  by (simp add: static_env_def env_of_def sink_node_def)

lemma sc1: "static_cache_input w sink_node ''C'' 0 [(''x'', v), (''cfg'', c)] = [(''x'', v), (''cfg'', c)]"
  by (simp add: static_cache_input_def missing_static_names_def sink_node_def cfg_link_def x_link_def)

lemma pr1: "parse_execution_output static_env (''out'', VInt 9) ''out'' = Some (VInt 9)"
  by (simp add: static_env_def env_of_def plain_parse_def)

lemma nx: "r_input_data (node_exec g n st d) = d" by (simp add: node_exec_def)

lemma sv2: "fst (validate_exec static_env sink_node [(''x'', VInt 2), (''cfg'', VInt 9)] True) = Some [(''x'', VInt 2), (''cfg'', VInt 9)]"
  by (simp add: sink_valid)

text \<open>
  C3. The claim: after a production on the source pin of a static link, every
  INCOMPLETE execution of the sink that misses the link's pin receives the value and
  is enqueued if that completes it. The resolver does not do so when the execution
  that the input upsert chose does not validate: it returns at the guard
  \<^verbatim>\<open>if not next_node_input\<close>, before the loop over the incomplete executions. Here the
  value goes to execution 0, whose \<open>x\<close> the schema rejects; execution 1 misses only
  \<open>cfg\<close> and validates once it has the value, yet it is left INCOMPLETE without it
  and no entry is returned.
\<close>

theorem register_next_executions_strands_incomplete:
  "is_static cfg_link
   \<and> cfg_link \<in> set (input_links (get_node static_env (sink_id cfg_link)))
   \<and> parse_execution_output static_env (''out'', VInt 9) (source_name cfg_link) = Some (VInt 9)
   \<and> r_node_id (node_execs stuck_world ! 1) = sink_id cfg_link
   \<and> r_graph_exec_id (node_execs stuck_world ! 1) = 0
   \<and> r_status (node_execs stuck_world ! 1) = INCOMPLETE
   \<and> map_of (r_input_data (node_execs stuck_world ! 1)) (sink_name cfg_link) = None
   \<and> fst (validate_exec static_env sink_node (r_input_data (node_execs stuck_world ! 1) @ [(sink_name cfg_link, VInt 9)]) True)
        = Some [(''x'', VInt 2), (''cfg'', VInt 9)]
   \<and> register_next_executions static_env ''u'' 0 ''g'' (''out'', VInt 9) cfg_link stuck_world
        = (Inr [], world_of [node_exec 0 ''C'' INCOMPLETE [(''x'', VStr ''bad''), (''cfg'', VInt 9)],
                             node_exec 0 ''C'' INCOMPLETE [(''x'', VInt 2)]] [graph_exec RUNNING])"
proof -
  have sid: "sink_id cfg_link = ''C''" "sink_name cfg_link = ''cfg''" "source_name cfg_link = ''out''"
    by (simp_all add: cfg_link_def)
  have h1: "is_static cfg_link" by (simp add: cfg_link_def)
  have h2: "cfg_link \<in> set (input_links (get_node static_env (sink_id cfg_link)))"
    by (simp add: sid gn) (simp add: sink_node_def)
  have r1: "node_execs stuck_world ! Suc 0 = node_exec 0 ''C'' INCOMPLETE [(''x'', VInt 2)]"
    by (simp add: stuck_world_def world_of_def)
  have h9: "r_node_id (node_execs stuck_world ! 1) = sink_id cfg_link"
    "r_graph_exec_id (node_execs stuck_world ! 1) = 0" "r_status (node_execs stuck_world ! 1) = INCOMPLETE"
    by (simp_all add: r1 sid) (simp_all add: node_exec_def)
  have m: "map_of (r_input_data (node_execs stuck_world ! 1)) (sink_name cfg_link) = None"
    by (simp add: r1 nx sid)
  have v: "fst (validate_exec static_env sink_node (r_input_data (node_execs stuck_world ! 1) @ [(sink_name cfg_link, VInt 9)]) True)
        = Some [(''x'', VInt 2), (''cfg'', VInt 9)]"
    by (simp add: r1 nx sid sv2)
  have up: "upsert_execution_input static_env stuck_world ''C'' 0 ''cfg'' (VInt 9) =
     (0, [(''x'', VStr ''bad''), (''cfg'', VInt 9)],
      world_of [node_exec 0 ''C'' INCOMPLETE [(''x'', VStr ''bad''), (''cfg'', VInt 9)], node_exec 0 ''C'' INCOMPLETE [(''x'', VInt 2)]]
              [graph_exec RUNNING])"
    by (simp add: upsert_execution_input_def stuck_world_def world_of_def node_exec_def Let_def)
  have reg: "register_next_executions static_env ''u'' 0 ''g'' (''out'', VInt 9) cfg_link stuck_world
        = (Inr [], world_of [node_exec 0 ''C'' INCOMPLETE [(''x'', VStr ''bad''), (''cfg'', VInt 9)],
                             node_exec 0 ''C'' INCOMPLETE [(''x'', VInt 2)]] [graph_exec RUNNING])"
    by (simp add: register_next_executions_def sid pr1 gn up sc1 sink_invalid del: static_scan.simps)
  show ?thesis using h1 h2 h9 m v reg by (simp add: sid pr1)
qed

section \<open>Properties of the node executor\<close>

lemma update_execution_status_eq:
  "i < length (node_execs w) \<Longrightarrow>
   update_execution_status w i st =
     w\<lparr>node_execs := (node_execs w)
          [i := (node_execs w ! i)
                  \<lparr>r_status := (if advances (r_status (node_execs w ! i)) st then st else r_status (node_execs w ! i))\<rparr>],
       sent := sent w @ [NodeUpdate i (if advances (r_status (node_execs w ! i)) st then st
                                       else r_status (node_execs w ! i))]\<rparr>"
  by (simp add: update_execution_status_def update_and_send_def update_node_execution_status_def
      send_execution_update_def Let_def)

text \<open>
  C6 (amended). For an entry whose input fails the pre-validation (\<^verbatim>\<open>validate_exec\<close>
  with \<^verbatim>\<open>resolve_input=False\<close> returns \<^verbatim>\<open>None\<close>), the node executor pushes the error
  message as the \<open>error\<close> output of the entry's execution, marks the execution FAILED
  unless the store already holds it as COMPLETED or TERMINATED, in which case it keeps
  that status, broadcasts the stored status, and returns: it yields no successor entry,
  and nothing else of the state changes, so the block is not invoked and no lock is
  taken.
\<close>

theorem execute_node_invalid_input:
  assumes "validate_exec E (get_node E (e_node_id data)) (e_data data) False = (None, error)"
    and "e_node_exec_id data < length (node_execs w)"
  shows "execute_node E data w =
           ([], Returned,
            w\<lparr>node_execs := (node_execs w)
                 [e_node_exec_id data :=
                    (node_execs w ! e_node_exec_id data)
                      \<lparr>r_output_data := r_output_data (node_execs w ! e_node_exec_id data) @ [(''error'', VStr error)],
                       r_status := (if r_status (node_execs w ! e_node_exec_id data) = COMPLETED
                                     \<or> r_status (node_execs w ! e_node_exec_id data) = TERMINATED
                                    then r_status (node_execs w ! e_node_exec_id data) else FAILED)\<rparr>],
              sent := sent w @ [NodeUpdate (e_node_exec_id data)
                                  (if r_status (node_execs w ! e_node_exec_id data) = COMPLETED
                                     \<or> r_status (node_execs w ! e_node_exec_id data) = TERMINATED
                                   then r_status (node_execs w ! e_node_exec_id data) else FAILED)]\<rparr>)"
proof -
  have r: "r\<lparr>r_status := r_status r\<rparr> = r" for r :: NodeExecutionResult by simp
  show ?thesis
    using assms
    by (cases "r_status (node_execs w ! e_node_exec_id data)")
      (simp_all add: execute_node_def push_output_def upsert_execution_output_def
        update_execution_status_eq advances_def Let_def r)
qed

theorem execute_node_invalid_input_witness:
  "validate_exec (env_of [echo_block [''x''] []] [lone_node (echo_block [''x''] [])])
      (get_node (env_of [echo_block [''x''] []] [lone_node (echo_block [''x''] [])]) (e_node_id (entry_for 0 [])))
      (e_data (entry_for 0 [])) False = (None, ''Input data missing or mismatch for `Echo`: missing input '' @ str_names [''x''])
   \<and> e_node_exec_id (entry_for 0 []) < length (node_execs queued_world)
   \<and> execute_node (env_of [echo_block [''x''] []] [lone_node (echo_block [''x''] [])]) (entry_for 0 []) queued_world
       = ([], Returned,
          world_of [(node_exec 0 ''n1'' FAILED [])
                      \<lparr>r_output_data := [(''error'', VStr (''Input data missing or mismatch for `Echo`: missing input '' @ str_names [''x'']))]\<rparr>]
                   [graph_exec RUNNING]
            \<lparr>sent := [NodeUpdate 0 FAILED]\<rparr>)"
proof -
  let ?E = "env_of [echo_block [''x''] []] [lone_node (echo_block [''x''] [])]"
  have n: "get_node ?E (e_node_id (entry_for 0 [])) = lone_node (echo_block [''x''] [])"
    by (simp add: env_of_def entry_for_def lone_node_def)
  have h1: "validate_exec ?E (get_node ?E (e_node_id (entry_for 0 []))) (e_data (entry_for 0 [])) False
      = (None, ''Input data missing or mismatch for `Echo`: missing input '' @ str_names [''x''])"
    unfolding n
    by (simp add: validate_exec_def check_input_def env_of_def lone_node_def echo_block_def plain_schema_def
        entry_for_def dict_merge_def error_prefix_def Let_def)
  have h2: "e_node_exec_id (entry_for 0 []) < length (node_execs queued_world)"
    by (simp add: entry_for_def queued_world_def world_of_def)
  note t = execute_node_invalid_input [OF h1 h2]
  show ?thesis using h1 h2
    by (simp add: t) (simp add: queued_world_def world_of_def node_exec_def entry_for_def)
qed

theorem execute_node_invalid_input_terminated_counterexample:
  "fst (validate_exec (env_of [echo_block [''x''] []] [lone_node (echo_block [''x''] [])])
      (get_node (env_of [echo_block [''x''] []] [lone_node (echo_block [''x''] [])]) (e_node_id (entry_for 0 [])))
      (e_data (entry_for 0 [])) False) = None
   \<and> map r_status (node_execs (snd (snd
        (execute_node (env_of [echo_block [''x''] []] [lone_node (echo_block [''x''] [])]) (entry_for 0 []) terminated_world))))
       = [TERMINATED]"
  by (simp add: execute_node_def validate_exec_def check_input_def env_of_def lone_node_def echo_block_def
      plain_schema_def entry_for_def dict_merge_def error_prefix_def Let_def terminated_world_def world_of_def
      node_exec_def push_output_def upsert_execution_output_def update_execution_status_def update_and_send_def
      update_node_execution_status_def send_execution_update_def advances_def)

lemma execute_node_valid:
  assumes "validate_exec E (get_node E (e_node_id data)) (e_data data) False = (Some validated, name)"
    and "acquire_credentials (e_user_id data)
           (get_credentials_fields (input_schema (block (get_node E (e_node_id data)))))
           (shape_input (get_node E (e_node_id data)) validated) None (ambient_kwargs data)
           (update_execution_status w (e_node_exec_id data) RUNNING) = (Inr (creds_lock, kwargs), w2)"
    and "execute (block (get_node E (e_node_id data))) (shape_input (get_node E (e_node_id data)) validated) kwargs
           = (outputs, failure)"
    and "process_outputs E (get_node E (e_node_id data)) data outputs []
           (w2\<lparr>invoked := invoked w2 @ [e_node_exec_id data]\<rparr>) = (err, yielded, w4)"
  shows "execute_node E data w =
    (case (case err of Some e \<Rightarrow> Some e | None \<Rightarrow> map_option BlockError failure) of
       None \<Rightarrow>
         (yielded, Returned,
          release_credentials creds_lock (update_execution_status w4 (e_node_exec_id data) COMPLETED))
     | Some e \<Rightarrow>
         (case enqueue_next_nodes E (get_node E (e_node_id data)) (''error'', VStr (str_exn e))
                 (e_user_id data) (e_graph_exec_id data) (e_graph_id data)
                 (update_execution_status
                    (push_output w4 (e_node_exec_id data) ''error'' (VStr (str_exn e))) (e_node_exec_id data) FAILED) of
            (Inl e2, w6) \<Rightarrow> (yielded, Raised e2, release_credentials creds_lock w6)
          | (Inr es, w6) \<Rightarrow> (yielded @ es, Raised e, release_credentials creds_lock w6)))"
  using assms by (simp add: execute_node_def Let_def split: option.splits)

lemma acquire_two:
  "acquire_credentials ''u'' [(''c1'', creds_meta), (''c2'', creds_meta)] two_creds_input None kw w
     = (Inr (Some (''u'', ''b''),
             AList.update ''c2'' (KCredentials ''u'' ''b'') (AList.update ''c1'' (KCredentials ''u'' ''a'') kw)),
        w\<lparr>locks := locks w @ [(''u'', ''a''), (''u'', ''b'')]\<rparr>)"
  by (simp add: two_creds_input_def acquire_def)

text \<open>
  C5. The claim: every credentials lock acquired for an execution is released on every
  exit path of the node executor. The loop that acquires the locks keeps only the last
  one in \<^verbatim>\<open>creds_lock\<close>, and the \<^verbatim>\<open>finally\<close> block releases only that one. For a
  block with the two credentials fields \<open>c1\<close> and \<open>c2\<close> that completes normally, the
  lock of \<open>c1\<close> is still held when \<^verbatim>\<open>execute_node\<close> has returned.
\<close>

theorem execute_node_leaks_first_lock:
  "get_credentials_fields (input_schema two_creds_block) = [(''c1'', creds_meta), (''c2'', creds_meta)]
   \<and> locks queued_world = []
   \<and> fst (snd (execute_node (env_of [two_creds_block] [lone_node two_creds_block]) (entry_for 0 two_creds_input) queued_world)) = Returned
   \<and> map r_status (node_execs (snd (snd (execute_node (env_of [two_creds_block] [lone_node two_creds_block]) (entry_for 0 two_creds_input) queued_world)))) = [COMPLETED]
   \<and> locks (snd (snd (execute_node (env_of [two_creds_block] [lone_node two_creds_block]) (entry_for 0 two_creds_input) queued_world))) = [(''u'', ''a'')]"
proof -
  let ?E = "env_of [two_creds_block] [lone_node two_creds_block]"
  have n: "get_node ?E (e_node_id (entry_for 0 two_creds_input)) = lone_node two_creds_block"
    by (simp add: env_of_def entry_for_def lone_node_def)
  have v: "validate_exec ?E (lone_node two_creds_block) (e_data (entry_for 0 two_creds_input)) False
      = (Some two_creds_input, ''TwoCreds'')"
    by (simp add: validate_exec_def check_input_def env_of_def lone_node_def two_creds_block_def plain_schema_def
        entry_for_def dict_merge_def two_creds_input_def Let_def)
  have f: "get_credentials_fields (input_schema two_creds_block) = [(''c1'', creds_meta), (''c2'', creds_meta)]"
    by (simp add: two_creds_block_def plain_schema_def)
  have b: "block (lone_node two_creds_block) = two_creds_block" "output_links (lone_node two_creds_block) = []"
    by (simp_all add: lone_node_def)
  have x: "execute two_creds_block i k = ([], None)" for i k
    by (simp add: two_creds_block_def)
  have s: "shape_input (lone_node two_creds_block) d = d" for d
    by (simp add: shape_input_def lone_node_def two_creds_block_def)
  have u: "e_user_id (entry_for 0 two_creds_input) = ''u''" "e_node_exec_id (entry_for 0 two_creds_input) = 0"
    by (simp_all add: entry_for_def)
  have r: "update_execution_status queued_world 0 RUNNING
      = (world_of [node_exec 0 ''n1'' RUNNING []] [graph_exec RUNNING])\<lparr>sent := [NodeUpdate 0 RUNNING]\<rparr>"
    by (simp add: update_execution_status_def update_and_send_def update_node_execution_status_def
        send_execution_update_def queued_world_def world_of_def node_exec_def advances_def Let_def)
  have v': "validate_exec ?E (get_node ?E (e_node_id (entry_for 0 two_creds_input))) (e_data (entry_for 0 two_creds_input)) False
      = (Some two_creds_input, ''TwoCreds'')"
    unfolding n by (rule v)
  have a: "acquire_credentials (e_user_id (entry_for 0 two_creds_input))
           (get_credentials_fields (input_schema (block (get_node ?E (e_node_id (entry_for 0 two_creds_input))))))
           (shape_input (get_node ?E (e_node_id (entry_for 0 two_creds_input))) two_creds_input) None
           (ambient_kwargs (entry_for 0 two_creds_input))
           (update_execution_status queued_world (e_node_exec_id (entry_for 0 two_creds_input)) RUNNING)
       = (Inr (Some (''u'', ''b''),
             AList.update ''c2'' (KCredentials ''u'' ''b'')
               (AList.update ''c1'' (KCredentials ''u'' ''a'') (ambient_kwargs (entry_for 0 two_creds_input)))),
          (world_of [node_exec 0 ''n1'' RUNNING []] [graph_exec RUNNING])
             \<lparr>sent := [NodeUpdate 0 RUNNING], locks := [(''u'', ''a''), (''u'', ''b'')]\<rparr>)"
    by (simp add: n b f s u r acquire_two world_of_def del: acquire_credentials.simps)
  have x': "execute (block (get_node ?E (e_node_id (entry_for 0 two_creds_input))))
              (shape_input (get_node ?E (e_node_id (entry_for 0 two_creds_input))) two_creds_input)
              (AList.update ''c2'' (KCredentials ''u'' ''b'')
               (AList.update ''c1'' (KCredentials ''u'' ''a'') (ambient_kwargs (entry_for 0 two_creds_input))))
            = ([], None)"
    unfolding n b by (rule x)
  have e: "execute_node ?E (entry_for 0 two_creds_input) queued_world
      = ([], Returned,
         (world_of [node_exec 0 ''n1'' COMPLETED []] [graph_exec RUNNING])
           \<lparr>sent := [NodeUpdate 0 RUNNING, NodeUpdate 0 COMPLETED], locks := [(''u'', ''a'')], invoked := [0]\<rparr>)"
    unfolding execute_node_valid [OF v' a x', OF process_outputs.simps(1)]
    by (simp add: u update_execution_status_def update_and_send_def update_node_execution_status_def
        send_execution_update_def world_of_def node_exec_def advances_def Let_def
        release_credentials_def locked_def release_def)
  show ?thesis
    by (simp add: e f) (simp add: world_of_def node_exec_def queued_world_def)
qed















lemma release_credentials_frame:
  "node_execs (release_credentials cl w) = node_execs w" "sent (release_credentials cl w) = sent w"
  by (auto simp: release_credentials_def release_def split: option.splits)








section \<open>Properties of add_execution\<close>



lemma add_execution_failure:
  "add_execution E get_graph get_creds_by_id m graph_id data user_id graph_version = (Inl e, m') \<Longrightarrow> m' = m"
  by (auto simp: add_execution_def Let_def split: option.splits sum.splits prod.splits if_splits)






end
